theory Spec2Isabelle
  imports Main
begin

section \<open>JavaScript values\<close>

text \<open>
  The values that flow through the form builder at run time. Numbers are restricted to
  the integers plus \<open>NaN\<close>; an object is known only by its identity (its reference),
  which is all that strict equality and truthiness look at.
\<close>

datatype jsval =
    JUndefined
  | JNull
  | JBool bool
  | JNum int
  | JNaN
  | JStr string
  | JObj nat

text \<open>\<open>Boolean(v)\<close>, also the test of \<open>if (v)\<close>, \<open>v && w\<close>, \<open>v || w\<close> and \<open>!v\<close>.\<close>

fun toBoolean :: "jsval \<Rightarrow> bool" where
  "toBoolean JUndefined = False"
| "toBoolean JNull = False"
| "toBoolean (JBool b) = b"
| "toBoolean (JNum n) = (n \<noteq> 0)"
| "toBoolean JNaN = False"
| "toBoolean (JStr s) = (s \<noteq> [])"
| "toBoolean (JObj r) = True"

text \<open>\<open>a === b\<close>: equal values of the same type, except that \<open>NaN\<close> equals nothing.\<close>

fun strictEquals :: "jsval \<Rightarrow> jsval \<Rightarrow> bool" where
  "strictEquals JNaN b = False"
| "strictEquals a JNaN = False"
| "strictEquals a b = (a = b)"

text \<open>\<open>a ?? b\<close>\<close>

definition nullish :: "jsval \<Rightarrow> jsval \<Rightarrow> jsval" where
  "nullish a b = (if a = JUndefined \<or> a = JNull then b else a)"

text \<open>\<open>a || b\<close> is \<open>a\<close> when \<open>a\<close> is truthy, and \<open>b\<close> otherwise.\<close>

definition js_or :: "jsval \<Rightarrow> jsval \<Rightarrow> jsval" where
  "js_or a b = (if toBoolean a then a else b)"

text \<open>
  A plain object is the map of its own properties; reading a property that is not
  there gives \<open>undefined\<close>.
\<close>

type_synonym jsobject = "string \<rightharpoonup> jsval"

definition getProp :: "jsobject \<Rightarrow> string \<Rightarrow> jsval" where
  "getProp obj k = (case obj k of None \<Rightarrow> JUndefined | Some v \<Rightarrow> v)"

text \<open>An optional string of the schema (\<open>showIf?: string\<close>) is truthy when it is there and not empty.\<close>

fun truthyStr :: "string option \<Rightarrow> bool" where
  "truthyStr None = False"
| "truthyStr (Some s) = (s \<noteq> [])"

fun truthyFlag :: "bool option \<Rightarrow> bool" where
  "truthyFlag None = False"
| "truthyFlag (Some b) = b"


section \<open>Widget state\<close>

text \<open>
  \<open>WidgetErrors\<close> maps an error kind to its message. \<open>WidgetState\<close> has the attributes
  (always there by its type, so \<open>state.attrs ?? {}\<close> is \<open>state.attrs\<close>), the optional
  errors, and further properties that this code copies with \<open>...state\<close>; they are the
  extension part of the record.
\<close>

type_synonym WidgetErrors = "string \<rightharpoonup> string"

record WidgetState =
  attrs :: jsobject
  errors :: "WidgetErrors option"

text \<open>\<open>errors ?? {}\<close>\<close>

definition orEmpty :: "('k \<rightharpoonup> 'v) option \<Rightarrow> ('k \<rightharpoonup> 'v)" where
  "orEmpty m = (case m of None \<Rightarrow> Map.empty | Some e \<Rightarrow> e)"

text \<open>
  A callback that may call \<open>set(widgetAtom, s)\<close> returns \<open>Some s\<close> when it does and
  \<open>None\<close> when it returns without writing. \<open>written\<close> is the atom afterwards.
\<close>

definition written :: "'s \<Rightarrow> 's option \<Rightarrow> 's" where
  "written st w = (case w of None \<Rightarrow> st | Some st' \<Rightarrow> st')"


section \<open>handleCondition\<close>

text \<open>
  \<open>parseExpression\<close> belongs to the expression parser, which is not part of these
  sources: it is a parameter, a function from the expression and the evaluation context
  to the value of the expression.
\<close>

definition nextValue :: "(string \<Rightarrow> 'c \<Rightarrow> jsval) \<Rightarrow> 'c \<Rightarrow> string \<Rightarrow> bool \<Rightarrow> bool" where
  "nextValue parseExpression context expr negate =
     (let value = toBoolean (parseExpression expr context)
      in if negate then \<not> value else value)"

definition handleCondition ::
  "(string \<Rightarrow> 'c \<Rightarrow> jsval) \<Rightarrow> 'c \<Rightarrow> string \<Rightarrow> string \<Rightarrow> bool
     \<Rightarrow> 'a WidgetState_scheme \<Rightarrow> 'a WidgetState_scheme option" where
  "handleCondition parseExpression context attr expr negate state =
     (let prev = getProp (attrs state) attr;
          next = nextValue parseExpression context expr negate
      in if \<not> strictEquals (JBool next) prev
         then Some (state\<lparr>attrs := (attrs state)(attr \<mapsto> JBool next)\<rparr>)
         else None)"


section \<open>Schema\<close>

text \<open>
  The properties of a \<open>Schema\<close> that this code reads, with their declared types: strings
  and flags are optional, and an expression is a string, as the \<open>expr: string\<close> of
  \<open>handleCondition\<close> has it. An \<open>Editor\<close> is an object with an optional \<open>viewer\<close> property; of
  the schema's viewer only its truthiness is read. All further properties of a schema
  are the extension part of the record.
\<close>

record Editor =
  editor_viewer :: jsval

record Schema =
  type :: "string option"
  jsonField :: "string option"
  contextField :: "string option"
  contextFieldValue :: "string option"
  hidden :: "bool option"
  required :: "bool option"
  showIf :: "string option"
  hideIf :: "string option"
  readonlyIf :: "string option"
  requiredIf :: "string option"
  validIf :: "string option"
  collapseIf :: "string option"
  canNew :: "string option"
  canEdit :: "string option"
  canView :: "string option"
  canSave :: "string option"
  canCopy :: "string option"
  canRemove :: "string option"
  canDelete :: "string option"
  canArchive :: "string option"
  canAttach :: "string option"
  canSelect :: "string option"
  bind :: "string option"
  editor :: "Editor option"
  viewer :: jsval

text \<open>An optional string or flag as a value, and inside a template literal.\<close>

fun ofStr :: "string option \<Rightarrow> jsval" where
  "ofStr None = JUndefined"
| "ofStr (Some s) = JStr s"

fun ofFlag :: "bool option \<Rightarrow> jsval" where
  "ofFlag None = JUndefined"
| "ofFlag (Some b) = JBool b"

fun interp :: "string option \<Rightarrow> string" where
  "interp None = ''undefined''"
| "interp (Some s) = s"


section \<open>processSchema\<close>

definition contextCondition :: "string option \<Rightarrow> string option \<Rightarrow> string" where
  "contextCondition cf cfv = ''($record.'' @ interp cf @ ''.id === '' @ interp cfv @ '')''"

definition processSchema :: "'a Schema_scheme \<Rightarrow> 'a Schema_scheme" where
  "processSchema schema =
     (if \<not> truthyStr (jsonField schema) \<or>
         \<not> truthyStr (contextField schema) \<or>
         \<not> truthyStr (contextFieldValue schema) \<or>
         (truthyFlag (hidden schema) \<and> \<not> truthyStr (showIf schema) \<and> \<not> truthyStr (hideIf schema))
      then schema
      else
        let contextFieldShowIf0 = contextCondition (contextField schema) (contextFieldValue schema);
            contextFieldRequiredIf =
              (if truthyFlag (required schema) \<or> truthyStr (requiredIf schema)
               then (if truthyStr (requiredIf schema)
                     then Some (contextFieldShowIf0 @ '' && ('' @ interp (requiredIf schema) @ '')'')
                     else Some contextFieldShowIf0)
               else requiredIf schema);
            contextFieldShowIf1 =
              (if truthyStr (showIf schema)
               then contextFieldShowIf0 @ '' && ('' @ interp (showIf schema) @ '')''
               else contextFieldShowIf0);
            contextFieldShowIf2 =
              (if truthyStr (hideIf schema)
               then contextFieldShowIf1 @ '' && !('' @ interp (hideIf schema) @ '')''
               else contextFieldShowIf1)
        in schema\<lparr>showIf := Some contextFieldShowIf2,
                  hideIf := None,
                  requiredIf := contextFieldRequiredIf\<rparr>)"


section \<open>FormWidget\<close>

definition isField :: "'a Schema_scheme \<Rightarrow> jsval" where
  "isField schema =
     js_or (ofStr (jsonField schema))
       (js_or (JBool (type schema = Some ''field''))
              (JBool (type schema = Some ''panel-related'')))"

text \<open>
  The props of \<open>FormWidget\<close> that decide what it renders, and what it renders: the
  \<open>render\<close> component, nothing, the viewer, the editor or the form item, the last three
  with the value atom they are given. \<open>createValueAtom\<close> is not part of these sources and
  is a parameter.
\<close>

record ('a, 'r) FormWidgetProps =
  props_schema :: "'a Schema_scheme"
  props_readonly :: "bool option"
  props_render :: "'r option"

datatype ('r, 'v) Rendered =
    Custom 'r
  | Null
  | FieldViewer "'v option"
  | FieldEditor "'v option"
  | FormItem "'v option"

definition valueAtomOf :: "('a Schema_scheme \<Rightarrow> 'v) \<Rightarrow> 'a Schema_scheme \<Rightarrow> 'v option" where
  "valueAtomOf createValueAtom schema =
     (if toBoolean (isField schema) then Some (createValueAtom schema) else None)"

definition FormWidget ::
  "('a Schema_scheme \<Rightarrow> 'v) \<Rightarrow> ('a, 'r) FormWidgetProps \<Rightarrow> 'b WidgetState_scheme
     \<Rightarrow> ('r, 'v) Rendered" where
  "FormWidget createValueAtom props a =
     (let schema = props_schema props;
          valueAtom = valueAtomOf createValueAtom schema;
          hidden = getProp (attrs a) ''hidden'';
          readonly = js_or (getProp (attrs a) ''readonly'') (ofFlag (props_readonly props));
          canEdit = nullish (getProp (attrs a) ''canEdit'') (JBool True);
          canView = nullish (getProp (attrs a) ''canView'') (JBool True);
          canShowEditor = (editor schema \<noteq> None \<and> valueAtom \<noteq> None \<and>
                           toBoolean canEdit \<and> \<not> toBoolean readonly);
          canShowViewer = (toBoolean (viewer schema) \<and> valueAtom \<noteq> None \<and>
                           toBoolean canView \<and> toBoolean readonly);
          showEditorAsViewer =
            (toBoolean (case editor schema of None \<Rightarrow> JUndefined
                                            | Some e \<Rightarrow> editor_viewer e) \<and>
             valueAtom \<noteq> None \<and> toBoolean canView \<and> toBoolean readonly)
      in case props_render props of
           Some Comp \<Rightarrow> Custom Comp
         | None \<Rightarrow>
             if toBoolean hidden then Null
             else if canShowViewer then FieldViewer valueAtom
             else if canShowEditor \<or> showEditorAsViewer then FieldEditor valueAtom
             else FormItem valueAtom)"


section \<open>handleBind and handleValidation\<close>

text \<open>
  \<open>set(valueAtom, value, false, isDirty)\<close>: the call that \<open>handleBind\<close> makes on the value
  atom, with its three arguments. \<open>get\<close> reads the atom. \<open>parseAngularExp\<close> is a parameter
  like \<open>parseExpression\<close>.
\<close>

record ValueSet =
  set_value :: jsval
  set_fireOnChange :: bool
  set_markDirty :: bool

definition handleBind ::
  "(string \<Rightarrow> 'c \<Rightarrow> jsval) \<Rightarrow> ('v \<Rightarrow> jsval) \<Rightarrow> 'v option \<Rightarrow> 'c \<Rightarrow> string
     \<Rightarrow> ValueSet option" where
  "handleBind parseAngularExp get valueAtom context bind' =
     (case valueAtom of
        None \<Rightarrow> None
      | Some atom \<Rightarrow>
          let prevValue = get atom;
              value = nullish (parseAngularExp bind' context) JNull;
              isDirty = (if prevValue = JUndefined then False
                         else \<not> strictEquals prevValue value)
          in Some \<lparr>set_value = value, set_fireOnChange = False, set_markDirty = isDirty\<rparr>)"

text \<open>
  \<open>i18n.get\<close> is a parameter: the message for a template and its argument. \<open>isEqual\<close> on
  two error objects is equality of the maps; \<open>undefined\<close> is equal to no object.
\<close>

definition handleValidation ::
  "(string \<Rightarrow> 'c \<Rightarrow> jsval) \<Rightarrow> (string \<Rightarrow> jsval \<Rightarrow> string) \<Rightarrow> 'c \<Rightarrow> string
     \<Rightarrow> 'a WidgetState_scheme \<Rightarrow> 'a WidgetState_scheme option" where
  "handleValidation parseExpression i18n_get context expr state =
     (let value = parseExpression expr context;
          errors0 = (case errors state of None \<Rightarrow> Map.empty | Some e \<Rightarrow> e)
                      (''invalid'' \<mapsto> i18n_get ''{0} is invalid'' (getProp (attrs state) ''title''));
          errors1 = (if toBoolean value then errors0(''invalid'' := None) else errors0)
      in if errors state \<noteq> Some errors1
         then Some (state\<lparr>errors := Some errors1\<rparr>)
         else None)"

text \<open>
  The errors that \<open>handleValidation\<close> arrives at for the value \<open>v\<close> of the expression: the
  previous ones with the \<open>invalid\<close> entry set to the message when \<open>v\<close> is falsy, and
  without an \<open>invalid\<close> entry when it is truthy.
\<close>

definition invalidUpdated ::
  "(string \<Rightarrow> jsval \<Rightarrow> string) \<Rightarrow> jsval \<Rightarrow> 'a WidgetState_scheme \<Rightarrow> WidgetErrors" where
  "invalidUpdated i18n_get v st =
     (orEmpty (errors st))(''invalid'' :=
        if toBoolean v then None
        else Some (i18n_get ''{0} is invalid'' (getProp (attrs st) ''title'')))"


section \<open>The record subscription of useExpressions\<close>

text \<open>\<open>if (expr) handleCondition(ctx, attr, expr, negate)\<close> on the widget atom.\<close>

fun conditionStep ::
  "(string \<Rightarrow> 'c \<Rightarrow> jsval) \<Rightarrow> 'c \<Rightarrow> string \<Rightarrow> string option \<Rightarrow> bool
     \<Rightarrow> 'a WidgetState_scheme \<Rightarrow> 'a WidgetState_scheme" where
  "conditionStep pe ctx attr None negate st = st"
| "conditionStep pe ctx attr (Some expr) negate st =
     (if expr \<noteq> [] then written st (handleCondition pe ctx attr expr negate st) else st)"

fun validationStep ::
  "(string \<Rightarrow> 'c \<Rightarrow> jsval) \<Rightarrow> (string \<Rightarrow> jsval \<Rightarrow> string) \<Rightarrow> 'c \<Rightarrow> string option
     \<Rightarrow> 'a WidgetState_scheme \<Rightarrow> 'a WidgetState_scheme" where
  "validationStep pe i18n_get ctx None st = st"
| "validationStep pe i18n_get ctx (Some expr) st =
     (if expr \<noteq> [] then written st (handleValidation pe i18n_get ctx expr st) else st)"

fun bindStep ::
  "(string \<Rightarrow> 'c \<Rightarrow> jsval) \<Rightarrow> ('v \<Rightarrow> jsval) \<Rightarrow> 'v option \<Rightarrow> 'c \<Rightarrow> string option
     \<Rightarrow> ValueSet option" where
  "bindStep pae get valueAtom ctx None = None"
| "bindStep pae get valueAtom ctx (Some b) =
     (if b \<noteq> [] then handleBind pae get valueAtom ctx b else None)"

definition hasExpression :: "'a Schema_scheme \<Rightarrow> bool" where
  "hasExpression s =
     (truthyStr (showIf s) \<or> truthyStr (hideIf s) \<or> truthyStr (readonlyIf s) \<or>
      truthyStr (requiredIf s) \<or> truthyStr (validIf s) \<or> truthyStr (collapseIf s) \<or>
      truthyStr (canNew s) \<or> truthyStr (canEdit s) \<or> truthyStr (canSave s) \<or>
      truthyStr (canCopy s) \<or> truthyStr (canView s) \<or> truthyStr (canRemove s) \<or>
      truthyStr (canDelete s) \<or> truthyStr (canArchive s) \<or> truthyStr (canAttach s) \<or>
      truthyStr (canSelect s))"

text \<open>
  The callback given to \<open>recordHandler.subscribe\<close>, for the context \<open>ctx\<close> that
  \<open>createContext(record)\<close> made: the call on the value atom, if any, and the widget atom
  after the handlers have run in the order of the source. \<open>s\<close> is \<open>processSchema(schema)\<close>.
\<close>

definition subscriber ::
  "(string \<Rightarrow> 'c \<Rightarrow> jsval) \<Rightarrow> (string \<Rightarrow> 'c \<Rightarrow> jsval) \<Rightarrow> (string \<Rightarrow> jsval \<Rightarrow> string)
     \<Rightarrow> ('v \<Rightarrow> jsval) \<Rightarrow> 'v option \<Rightarrow> 'a Schema_scheme \<Rightarrow> 'c
     \<Rightarrow> 'b WidgetState_scheme \<Rightarrow> ValueSet option \<times> 'b WidgetState_scheme" where
  "subscriber pe pae i18n_get get valueAtom s ctx st =
     (let call = bindStep pae get valueAtom ctx (bind s);
          st1 = conditionStep pe ctx ''hidden'' (showIf s) True st;
          st2 = conditionStep pe ctx ''hidden'' (hideIf s) False st1;
          st3 = conditionStep pe ctx ''readonly'' (readonlyIf s) False st2;
          st4 = conditionStep pe ctx ''required'' (requiredIf s) False st3;
          st5 = conditionStep pe ctx ''collapse'' (collapseIf s) False st4;
          st6 = validationStep pe i18n_get ctx (validIf s) st5;
          st7 = conditionStep pe ctx ''canNew'' (canNew s) False st6;
          st8 = conditionStep pe ctx ''canEdit'' (canEdit s) False st7;
          st9 = conditionStep pe ctx ''canView'' (canView s) False st8;
          st10 = conditionStep pe ctx ''canSave'' (canSave s) False st9;
          st11 = conditionStep pe ctx ''canCopy'' (canCopy s) False st10;
          st12 = conditionStep pe ctx ''canRemove'' (canRemove s) False st11;
          st13 = conditionStep pe ctx ''canDelete'' (canDelete s) False st12;
          st14 = conditionStep pe ctx ''canArchive'' (canArchive s) False st13;
          st15 = conditionStep pe ctx ''canAttach'' (canAttach s) False st14;
          st16 = conditionStep pe ctx ''canSelect'' (canSelect s) False st15
      in (call, st16))"

text \<open>
  One record update as \<open>useExpressions\<close> sees it: the effect subscribes only when the
  processed schema has an expression or a \<open>bind\<close>; without a subscription nothing is
  called.
\<close>

definition recordUpdate ::
  "(string \<Rightarrow> 'c \<Rightarrow> jsval) \<Rightarrow> (string \<Rightarrow> 'c \<Rightarrow> jsval) \<Rightarrow> (string \<Rightarrow> jsval \<Rightarrow> string)
     \<Rightarrow> ('v \<Rightarrow> jsval) \<Rightarrow> 'v option \<Rightarrow> 'a Schema_scheme \<Rightarrow> 'c
     \<Rightarrow> 'b WidgetState_scheme \<Rightarrow> ValueSet option \<times> 'b WidgetState_scheme" where
  "recordUpdate pe pae i18n_get get valueAtom schema ctx st =
     (let s = processSchema schema
      in if hasExpression s \<or> truthyStr (bind s)
         then subscriber pe pae i18n_get get valueAtom s ctx st
         else (None, st))"


section \<open>valueCheck of FormField\<close>

text \<open>
  \<open>validate\<close> is a parameter: from the value, the props and the record to the errors, or
  to \<open>undefined\<close>. \<open>valueCheck\<close> reads the schema through \<open>...schema\<close> alone, so the schema is
  here the object of its properties, and \<open>{...schema, ...prev.attrs}\<close> is that object
  overridden by the attributes.
\<close>

definition valueCheck ::
  "(jsval \<Rightarrow> jsobject \<Rightarrow> 'r \<Rightarrow> WidgetErrors option) \<Rightarrow> jsval \<Rightarrow> jsobject \<Rightarrow> 'r
     \<Rightarrow> 'a WidgetState_scheme \<Rightarrow> 'a WidgetState_scheme option" where
  "valueCheck validate value schema record prev =
     (let errors0 = validate value (schema ++ attrs prev) record;
          invalid = (case errors prev of None \<Rightarrow> None | Some e \<Rightarrow> e ''invalid'');
          errors1 = (case invalid of
                       None \<Rightarrow> errors0
                     | Some i \<Rightarrow> if i \<noteq> [] then Some ([''invalid'' \<mapsto> i] ++ orEmpty errors0)
                                else errors0)
      in if orEmpty (errors prev) = orEmpty errors1 then None
         else Some (prev\<lparr>errors := errors1\<rparr>))"


section \<open>Phone widget\<close>

text \<open>
  Strings are ASCII here. \<open>toLowerCase\<close>, \<open>s.split("-")\<close> and \<open>s.split(/\W+/)\<close>; a word
  character is a letter, a digit or the underscore.
\<close>

definition lowerChar :: "char \<Rightarrow> char" where
  "lowerChar c =
     (case map_of (zip ''ABCDEFGHIJKLMNOPQRSTUVWXYZ'' ''abcdefghijklmnopqrstuvwxyz'') c of
        None \<Rightarrow> c
      | Some l \<Rightarrow> l)"

definition toLowerCase :: "string \<Rightarrow> string" where
  "toLowerCase s = map lowerChar s"

definition isWordChar :: "char \<Rightarrow> bool" where
  "isWordChar c =
     (c \<in> set ''0123456789ABCDEFGHIJKLMNOPQRSTUVWXYZ_abcdefghijklmnopqrstuvwxyz'')"

fun splitOn :: "char \<Rightarrow> string \<Rightarrow> string \<Rightarrow> string list" where
  "splitOn sep cur [] = [rev cur]"
| "splitOn sep cur (c # cs) =
     (if c = sep then rev cur # splitOn sep [] cs else splitOn sep (c # cur) cs)"

definition splitDash :: "string \<Rightarrow> string list" where
  "splitDash s = splitOn (CHR ''-'') [] s"

fun splitNonWordFrom :: "bool \<Rightarrow> string \<Rightarrow> string \<Rightarrow> string list" where
  "splitNonWordFrom inSep cur [] = [rev cur]"
| "splitNonWordFrom inSep cur (c # cs) =
     (if isWordChar c then splitNonWordFrom False (c # cur) cs
      else if inSep then splitNonWordFrom True cur cs
      else rev cur # splitNonWordFrom True [] cs)"

definition splitNonWord :: "string \<Rightarrow> string list" where
  "splitNonWord s = splitNonWordFrom False [] s"

text \<open>\<open>xs[1]\<close> of a list of strings: \<open>undefined\<close> when there is no second element.\<close>

fun second :: "'a list \<Rightarrow> 'a option" where
  "second (x # y # ys) = Some y"
| "second xs = None"

definition FALLBACK_COUNTRIES :: "(string \<times> string) list" where
  "FALLBACK_COUNTRIES =
     [(''af'', ''za''), (''ar'', ''sa''), (''be'', ''by''), (''bn'', ''bd''), (''bs'', ''ba''),
      (''cs'', ''cz''), (''da'', ''dk''), (''el'', ''gr''), (''en'', ''us''), (''et'', ''ee''),
      (''fa'', ''ir''), (''gu'', ''in''), (''he'', ''il''), (''hi'', ''in''), (''ja'', ''jp''),
      (''ko'', ''kr''), (''ms'', ''my''), (''sv'', ''se''), (''uk'', ''ua''), (''vi'', ''vn''),
      (''zh'', ''cn'')]"

definition onlyCountries :: "string option \<Rightarrow> string list" where
  "onlyCountries oc = (case oc of None \<Rightarrow> [] | Some s \<Rightarrow> map toLowerCase (splitNonWord s))"

text \<open>
  \<open>FALLBACK_COUNTRIES[language]\<close> reads a plain object: a key that the table does not have
  is looked up in \<open>Object.prototype\<close>. Of its members only \<open>constructor\<close> (the function
  \<open>Object\<close>) and \<open>__proto__\<close> (the prototype itself) have a lower-case name; the references
  0 and 1 stand for these two objects. Any other key gives \<open>undefined\<close>.
\<close>

definition fallbackCountry :: "string \<Rightarrow> jsval" where
  "fallbackCountry language =
     (case map_of FALLBACK_COUNTRIES language of
        Some c \<Rightarrow> JStr c
      | None \<Rightarrow> if language = ''constructor'' then JObj 0
               else if language = ''__proto__'' then JObj 1
               else JUndefined)"

text \<open>
  The country taken from the locale: a string, or one of the two objects above.
  \<open>_findLocale\<close> and \<open>navigator.languages\<close> come from outside and are parameters.
\<close>

definition localeCountry ::
  "(string list \<Rightarrow> string \<Rightarrow> (string \<Rightarrow> string) \<Rightarrow> string option) \<Rightarrow> string list \<Rightarrow> string
     \<Rightarrow> jsval" where
  "localeCountry findLocale languages locale =
     (let parts = map toLowerCase (splitDash locale);
          language = (case parts of [] \<Rightarrow> [] | l # _ \<Rightarrow> l);
          country =
            (case second parts of
               Some c \<Rightarrow> Some c
             | None \<Rightarrow>
                 (case findLocale
                         (filter (\<lambda>l. truthyStr (second (splitDash l))) languages)
                         locale
                         (\<lambda>l. case splitDash l of [] \<Rightarrow> [] | h # _ \<Rightarrow> h) of
                    None \<Rightarrow> None
                  | Some found \<Rightarrow> map_option toLowerCase (second (splitDash found))))
      in case country of
           Some c \<Rightarrow> JStr c
         | None \<Rightarrow> nullish (fallbackCountry language) (JStr language))"

text \<open>
  \<open>onlyCountries.includes(v)\<close>: a string is included when the list has it, and no other
  value is.
\<close>

definition arrayIncludes :: "string list \<Rightarrow> jsval \<Rightarrow> bool" where
  "arrayIncludes xs v = (v \<in> set (map JStr xs))"

definition defaultCountry ::
  "(string list \<Rightarrow> string \<Rightarrow> (string \<Rightarrow> string) \<Rightarrow> string option) \<Rightarrow> string list \<Rightarrow> string
     \<Rightarrow> string option \<Rightarrow> string list \<Rightarrow> jsval" where
  "defaultCountry findLocale languages locale initialCountry only =
     (let defaultCountry0 =
            (if truthyStr initialCountry then JStr (interp initialCountry)
             else localeCountry findLocale languages locale)
      in case only of
           [] \<Rightarrow> defaultCountry0
         | first # _ \<Rightarrow> if \<not> arrayIncludes only defaultCountry0 then JStr first
                        else defaultCountry0)"

definition countryIso2 :: "string list \<Rightarrow> jsval \<Rightarrow> string \<Rightarrow> jsval" where
  "countryIso2 only dflt iso2 =
     (if only \<noteq> [] \<and> \<not> arrayIncludes only (JStr iso2) then dflt else JStr iso2)"

text \<open>
  The value that the change handler given to \<open>usePhoneInput\<close> passes to \<open>onChange\<close>, and
  the one that \<open>onBlur\<close> passes to \<open>_onBlur\<close>, as \<open>target.value\<close> of the event.
\<close>

definition phoneOnChange :: "string \<Rightarrow> string \<Rightarrow> string" where
  "phoneOnChange phone dialCode = (if phone \<noteq> ''+'' @ dialCode then phone else [])"

definition phoneOnBlur :: "string \<Rightarrow> string \<Rightarrow> string" where
  "phoneOnBlur phone dialCode = (if phone \<noteq> ''+'' @ dialCode then phone else [])"


section \<open>Example inputs\<close>

definition emptySchema :: "Schema" where
  "emptySchema =
     \<lparr>type = None, jsonField = None, contextField = None, contextFieldValue = None,
      hidden = None, required = None, showIf = None, hideIf = None, readonlyIf = None,
      requiredIf = None, validIf = None, collapseIf = None, canNew = None, canEdit = None,
      canView = None, canSave = None, canCopy = None, canRemove = None, canDelete = None,
      canArchive = None, canAttach = None, canSelect = None, bind = None, editor = None,
      viewer = JUndefined\<rparr>"

definition contextSchema :: Schema where
  "contextSchema =
     emptySchema\<lparr>jsonField := Some ''attrs'', contextField := Some ''partner'',
                 contextFieldValue := Some ''1''\<rparr>"

definition emptyState :: WidgetState where
  "emptyState = \<lparr>attrs = Map.empty, errors = None\<rparr>"

text \<open>
  A stand-in for the expression parser in the examples: the context is the table of the
  values that the record gives to the expressions.
\<close>

definition tableEval :: "string \<Rightarrow> (string \<times> jsval) list \<Rightarrow> jsval" where
  "tableEval expr table = (case map_of table expr of None \<Rightarrow> JUndefined | Some v \<Rightarrow> v)"

definition titleMessage :: "string \<Rightarrow> jsval \<Rightarrow> string" where
  "titleMessage template arg = (case arg of JStr t \<Rightarrow> t @ drop 3 template | _ \<Rightarrow> template)"

text \<open>A value atom in the examples is the value it holds.\<close>

definition holds :: "jsval \<Rightarrow> jsval" where
  "holds atom = atom"

definition atomOf :: "jsval \<Rightarrow> 'a Schema_scheme \<Rightarrow> jsval" where
  "atomOf v schema = v"

definition requiredValidate :: "jsval \<Rightarrow> jsobject \<Rightarrow> unit \<Rightarrow> WidgetErrors option" where
  "requiredValidate value props record =
     (if getProp props ''required'' = JBool True \<and> (value = JNull \<or> value = JUndefined)
      then Some [''required'' \<mapsto> ''Field is required'']
      else None)"

text \<open>A validation that reports an \<open>invalid\<close> entry of its own.\<close>

definition rejectingValidate :: "jsval \<Rightarrow> jsobject \<Rightarrow> unit \<Rightarrow> WidgetErrors option" where
  "rejectingValidate value props record = Some [''invalid'' \<mapsto> ''Value is not allowed'']"

definition noLocale :: "string list \<Rightarrow> string \<Rightarrow> (string \<Rightarrow> string) \<Rightarrow> string option" where
  "noLocale languages locale key = None"


section \<open>Properties of handleCondition\<close>

lemma strictEquals_JBool [simp]: "strictEquals (JBool b) v = (v = JBool b)"
  by (cases v) auto

lemma handleCondition_attr:
  "getProp (attrs (written st (handleCondition pe c a e n st))) k =
     (if k = a then JBool (nextValue pe c e n) else getProp (attrs st) k)"
  by (auto simp: handleCondition_def written_def getProp_def Let_def split: option.splits)

lemma handleCondition_errors:
  "errors (written st (handleCondition pe c a e n st)) = errors st"
  by (simp add: handleCondition_def written_def Let_def)

lemma handleCondition_more:
  "WidgetState.more (written st (handleCondition pe c a e n st)) = WidgetState.more st"
  by (simp add: handleCondition_def written_def Let_def)

text \<open>
  C7. handleCondition writes the widget atom exactly when the (possibly negated) boolean
  result is not strictly equal to the attribute's previous value; what it writes then is
  the previous state with the named attribute set to that result: every other attribute,
  the errors and the rest of the state are the previous ones.
\<close>

theorem C7_handleCondition_frame:
  fixes st :: "'a WidgetState_scheme"
  shows "(handleCondition pe c a e n st = None \<longleftrightarrow> getProp (attrs st) a = JBool (nextValue pe c e n))
       \<and> (\<forall>st'. handleCondition pe c a e n st = Some st' \<longrightarrow>
             getProp (attrs st) a \<noteq> JBool (nextValue pe c e n)
           \<and> attrs st' a = Some (JBool (nextValue pe c e n))
           \<and> (\<forall>k. k \<noteq> a \<longrightarrow> attrs st' k = attrs st k)
           \<and> errors st' = errors st
           \<and> WidgetState.more st' = WidgetState.more st)"
  by (auto simp: handleCondition_def Let_def)

theorem C7_handleCondition_frame_witness:
  "handleCondition tableEval [(''x'', JBool True)] ''hidden'' ''x'' True
      \<lparr>attrs = [''hidden'' \<mapsto> JBool False, ''title'' \<mapsto> JStr ''T''], errors = None\<rparr> = None
   \<and> handleCondition tableEval [(''x'', JBool True)] ''hidden'' ''y'' True
      \<lparr>attrs = [''hidden'' \<mapsto> JBool False, ''title'' \<mapsto> JStr ''T''], errors = None\<rparr>
     = Some \<lparr>attrs = [''hidden'' \<mapsto> JBool True, ''title'' \<mapsto> JStr ''T''], errors = None\<rparr>"
proof -
  have u: "[''hidden'' \<mapsto> JBool False, ''title'' \<mapsto> JStr ''T''](''hidden'' \<mapsto> JBool True)
             = [''hidden'' \<mapsto> JBool True, ''title'' \<mapsto> JStr ''T'']"
    by (auto simp: fun_eq_iff)
  show ?thesis
    using u C7_handleCondition_frame [of tableEval "[(''x'', JBool True)]" "''hidden''" "''x''" True
        "\<lparr>attrs = [''hidden'' \<mapsto> JBool False, ''title'' \<mapsto> JStr ''T''], errors = None\<rparr>"]
    by (simp add: handleCondition_def nextValue_def getProp_def tableEval_def Let_def)
qed

section \<open>Properties of the record subscription\<close>

lemma conditionStep_attr:
  "getProp (attrs (conditionStep pe c a x n st)) k =
     (if truthyStr x \<and> k = a then JBool (nextValue pe c (interp x) n) else getProp (attrs st) k)"
  by (cases x) (simp_all add: handleCondition_attr)

lemma conditionStep_errors: "errors (conditionStep pe c a x n st) = errors st"
  by (cases x) (simp_all add: handleCondition_errors)

lemma handleValidation_attrs:
  "attrs (written st (handleValidation pe i18n c e st)) = attrs st"
  by (simp add: handleValidation_def written_def Let_def)

lemma validationStep_attrs: "attrs (validationStep pe i18n c x st) = attrs st"
  by (cases x) (simp_all add: handleValidation_attrs)

lemma handleValidation_cases:
  "handleValidation pe i18n c e st =
     (if errors st = Some (invalidUpdated i18n (pe e c) st) then None
      else Some (st\<lparr>errors := Some (invalidUpdated i18n (pe e c) st)\<rparr>))"
  by (auto simp: handleValidation_def invalidUpdated_def Let_def orEmpty_def split: option.splits)

lemma handleValidation_errors:
  "errors (written st (handleValidation pe i18n c e st)) = Some (invalidUpdated i18n (pe e c) st)"
  by (simp add: handleValidation_cases written_def)

lemma validationStep_errors:
  "errors (validationStep pe i18n c x st) =
     (if truthyStr x then Some (invalidUpdated i18n (pe (interp x) c) st) else errors st)"
  by (cases x) (simp_all add: handleValidation_errors)

lemma invalidUpdated_cong:
  "errors st = errors st' \<Longrightarrow> getProp (attrs st) ''title'' = getProp (attrs st') ''title''
     \<Longrightarrow> invalidUpdated i18n v st = invalidUpdated i18n v st'"
  by (simp add: invalidUpdated_def)

lemma processSchema_readonlyIf: "readonlyIf (processSchema s) = readonlyIf s"
  by (simp add: processSchema_def Let_def)

lemma processSchema_collapseIf: "collapseIf (processSchema s) = collapseIf s"
  by (simp add: processSchema_def Let_def)

lemma processSchema_validIf: "validIf (processSchema s) = validIf s"
  by (simp add: processSchema_def Let_def)

lemma processSchema_bind: "bind (processSchema s) = bind s"
  by (simp add: processSchema_def Let_def)

lemma subscriber_attr_hidden:
  "getProp (attrs (snd (subscriber pe pae i18n get va s c st))) ''hidden'' =
     (if truthyStr (hideIf s) then JBool (nextValue pe c (interp (hideIf s)) False)
      else if truthyStr (showIf s) then JBool (nextValue pe c (interp (showIf s)) True)
      else getProp (attrs st) ''hidden'')"
  by (simp add: subscriber_def Let_def conditionStep_attr validationStep_attrs)

lemma subscriber_attr_readonly:
  "getProp (attrs (snd (subscriber pe pae i18n get va s c st))) ''readonly'' =
     (if truthyStr (readonlyIf s) then JBool (nextValue pe c (interp (readonlyIf s)) False)
      else getProp (attrs st) ''readonly'')"
  by (simp add: subscriber_def Let_def conditionStep_attr validationStep_attrs)

lemma subscriber_attr_required:
  "getProp (attrs (snd (subscriber pe pae i18n get va s c st))) ''required'' =
     (if truthyStr (requiredIf s) then JBool (nextValue pe c (interp (requiredIf s)) False)
      else getProp (attrs st) ''required'')"
  by (simp add: subscriber_def Let_def conditionStep_attr validationStep_attrs)

lemma subscriber_attr_collapse:
  "getProp (attrs (snd (subscriber pe pae i18n get va s c st))) ''collapse'' =
     (if truthyStr (collapseIf s) then JBool (nextValue pe c (interp (collapseIf s)) False)
      else getProp (attrs st) ''collapse'')"
  by (simp add: subscriber_def Let_def conditionStep_attr validationStep_attrs)

lemma subscriber_errors:
  "errors (snd (subscriber pe pae i18n get va s c st)) =
     (if truthyStr (validIf s) then Some (invalidUpdated i18n (pe (interp (validIf s)) c) st)
      else errors st)"
proof -
  let ?st5 = "conditionStep pe c ''collapse'' (collapseIf s) False
               (conditionStep pe c ''required'' (requiredIf s) False
                 (conditionStep pe c ''readonly'' (readonlyIf s) False
                   (conditionStep pe c ''hidden'' (hideIf s) False
                     (conditionStep pe c ''hidden'' (showIf s) True st))))"
  have e: "errors ?st5 = errors st"
    by (simp add: conditionStep_errors)
  have t: "getProp (attrs ?st5) ''title'' = getProp (attrs st) ''title''"
    by (simp add: conditionStep_attr)
  have "errors (snd (subscriber pe pae i18n get va s c st)) =
          errors (validationStep pe i18n c (validIf s) ?st5)"
    by (simp add: subscriber_def Let_def conditionStep_errors)
  also have "\<dots> = (if truthyStr (validIf s)
                    then Some (invalidUpdated i18n (pe (interp (validIf s)) c) ?st5)
                    else errors ?st5)"
    by (rule validationStep_errors)
  also have "\<dots> = (if truthyStr (validIf s)
                    then Some (invalidUpdated i18n (pe (interp (validIf s)) c) st)
                    else errors st)"
    using invalidUpdated_cong [OF e t] e by simp
  finally show ?thesis .
qed

lemma subscriber_fst:
  "fst (subscriber pe pae i18n get va s c st) = bindStep pae get va c (bind s)"
  by (simp add: subscriber_def Let_def)

lemma nextValue_simps:
  "nextValue pe c e False = toBoolean (pe e c) \<and> nextValue pe c e True = (\<not> toBoolean (pe e c))"
  by (simp add: nextValue_def)

text \<open>
  C1 (amended). A record update evaluates the expressions of \<open>processSchema(schema)\<close>.
  Afterwards \<open>hidden\<close> is the boolean value of the processed \<open>hideIf\<close> when there is one
  (it is applied last), and otherwise the negation of the boolean value of the processed
  \<open>showIf\<close> when there is one; \<open>required\<close> is the boolean value of the processed
  \<open>requiredIf\<close>; \<open>readonly\<close> and \<open>collapse\<close> are the boolean values of the schema's own
  \<open>readonlyIf\<close> and \<open>collapseIf\<close>. A schema that lacks \<open>jsonField\<close>, \<open>contextField\<close> or
  \<open>contextFieldValue\<close> is processed to itself, so there the expressions are the schema's
  own.
\<close>

theorem C1_recordUpdate_conditions:
  fixes schema :: "'a Schema_scheme" and st :: "'b WidgetState_scheme"
  shows
  "(let s = processSchema schema;
        st' = snd (recordUpdate pe pae i18n get va schema ctx st)
    in (\<forall>e. hideIf s = Some e \<and> e \<noteq> [] \<longrightarrow>
              getProp (attrs st') ''hidden'' = JBool (toBoolean (pe e ctx)))
     \<and> (\<forall>e. showIf s = Some e \<and> e \<noteq> [] \<and> \<not> truthyStr (hideIf s) \<longrightarrow>
              getProp (attrs st') ''hidden'' = JBool (\<not> toBoolean (pe e ctx)))
     \<and> (\<forall>e. requiredIf s = Some e \<and> e \<noteq> [] \<longrightarrow>
              getProp (attrs st') ''required'' = JBool (toBoolean (pe e ctx)))
     \<and> (\<forall>e. readonlyIf schema = Some e \<and> e \<noteq> [] \<longrightarrow>
              getProp (attrs st') ''readonly'' = JBool (toBoolean (pe e ctx)))
     \<and> (\<forall>e. collapseIf schema = Some e \<and> e \<noteq> [] \<longrightarrow>
              getProp (attrs st') ''collapse'' = JBool (toBoolean (pe e ctx)))
     \<and> (\<not> truthyStr (jsonField schema) \<or> \<not> truthyStr (contextField schema) \<or>
        \<not> truthyStr (contextFieldValue schema) \<longrightarrow>
          showIf s = showIf schema \<and> hideIf s = hideIf schema \<and> requiredIf s = requiredIf schema))"
  unfolding Let_def
proof (intro conjI allI impI)
  fix e assume "hideIf (processSchema schema) = Some e \<and> e \<noteq> []"
  then show "getProp (attrs (snd (recordUpdate pe pae i18n get va schema ctx st))) ''hidden''
               = JBool (toBoolean (pe e ctx))"
    by (simp add: recordUpdate_def hasExpression_def subscriber_attr_hidden nextValue_simps)
next
  fix e assume "showIf (processSchema schema) = Some e \<and> e \<noteq> [] \<and> \<not> truthyStr (hideIf (processSchema schema))"
  then show "getProp (attrs (snd (recordUpdate pe pae i18n get va schema ctx st))) ''hidden''
               = JBool (\<not> toBoolean (pe e ctx))"
    by (simp add: recordUpdate_def hasExpression_def subscriber_attr_hidden nextValue_simps)
next
  fix e assume "requiredIf (processSchema schema) = Some e \<and> e \<noteq> []"
  then show "getProp (attrs (snd (recordUpdate pe pae i18n get va schema ctx st))) ''required''
               = JBool (toBoolean (pe e ctx))"
    by (simp add: recordUpdate_def hasExpression_def subscriber_attr_required nextValue_simps)
next
  fix e assume "readonlyIf schema = Some e \<and> e \<noteq> []"
  then show "getProp (attrs (snd (recordUpdate pe pae i18n get va schema ctx st))) ''readonly''
               = JBool (toBoolean (pe e ctx))"
    by (simp add: recordUpdate_def hasExpression_def subscriber_attr_readonly nextValue_simps
        processSchema_readonlyIf)
next
  fix e assume "collapseIf schema = Some e \<and> e \<noteq> []"
  then show "getProp (attrs (snd (recordUpdate pe pae i18n get va schema ctx st))) ''collapse''
               = JBool (toBoolean (pe e ctx))"
    by (simp add: recordUpdate_def hasExpression_def subscriber_attr_collapse nextValue_simps
        processSchema_collapseIf)
next
  assume a: "\<not> truthyStr (jsonField schema) \<or> \<not> truthyStr (contextField schema) \<or>
        \<not> truthyStr (contextFieldValue schema)"
  then have "processSchema schema = schema"
    by (auto simp: processSchema_def)
  then show "showIf (processSchema schema) = showIf schema"
    "hideIf (processSchema schema) = hideIf schema"
    "requiredIf (processSchema schema) = requiredIf schema"
    by simp_all
qed

theorem C1_recordUpdate_conditions_witness:
  "getProp (attrs (snd (recordUpdate tableEval tableEval titleMessage holds None
                        (emptySchema\<lparr>showIf := Some ''a'', readonlyIf := Some ''b''\<rparr>)
                        [(''a'', JBool True), (''b'', JNum 0)]
                        emptyState))) ''hidden'' = JBool False
   \<and> getProp (attrs (snd (recordUpdate tableEval tableEval titleMessage holds None
                        (emptySchema\<lparr>showIf := Some ''a'', readonlyIf := Some ''b''\<rparr>)
                        [(''a'', JBool True), (''b'', JNum 0)]
                        emptyState))) ''readonly'' = JBool False"
  using C1_recordUpdate_conditions [of "emptySchema\<lparr>showIf := Some ''a'', readonlyIf := Some ''b''\<rparr>"
      tableEval tableEval titleMessage holds None "[(''a'', JBool True), (''b'', JNum 0)]" emptyState]
  by (simp add: Let_def processSchema_def emptySchema_def tableEval_def)

text \<open>
  The claim as first stated fails for a JSON field with a context field: its \<open>hideIf\<close> is
  folded into the processed \<open>showIf\<close> and is not evaluated by itself. In a record where
  \<open>h\<close> is false and the context condition is false too, the claim wants \<open>hidden\<close> to be
  false, and the widget is hidden.
\<close>

lemma processed_hideIf:
  "processSchema (contextSchema\<lparr>hideIf := Some ''h''\<rparr>) =
     contextSchema\<lparr>hideIf := None, showIf := Some ''($record.partner.id === 1) && !(h)''\<rparr>"
  by (simp add: processSchema_def contextSchema_def emptySchema_def contextCondition_def)

theorem C1_counterexample:
  "hideIf (contextSchema\<lparr>hideIf := Some ''h''\<rparr>) = Some ''h''
   \<and> toBoolean (tableEval ''h'' [(''h'', JBool False),
                                 (''($record.partner.id === 1) && !(h)'', JBool False)]) = False
   \<and> getProp (attrs (snd (recordUpdate tableEval tableEval titleMessage holds None
                        (contextSchema\<lparr>hideIf := Some ''h''\<rparr>)
                        [(''h'', JBool False),
                         (''($record.partner.id === 1) && !(h)'', JBool False)]
                        emptyState))) ''hidden'' = JBool True"
  unfolding recordUpdate_def processed_hideIf
  by (simp add: Let_def hasExpression_def subscriber_attr_hidden tableEval_def
      nextValue_simps contextSchema_def emptySchema_def)


section \<open>Properties of handleValidation\<close>

text \<open>
  C5. For a schema with a \<open>validIf\<close> expression, after a record update the errors of the
  widget have the \<open>invalid\<close> entry with the message for the widget title exactly when the
  expression is falsy, and no \<open>invalid\<close> entry when it is truthy; the other entries are
  the previous ones. \<open>handleValidation\<close> writes the widget atom exactly when these errors
  are not equal to the previous errors, and changes nothing else of the state.
\<close>

theorem C5_validIf:
  fixes schema :: "'a Schema_scheme" and st st0 :: "'b WidgetState_scheme"
  shows
  "(\<forall>e. validIf schema = Some e \<and> e \<noteq> [] \<longrightarrow>
      (\<exists>errs. errors (snd (recordUpdate pe pae i18n get va schema ctx st)) = Some errs
         \<and> errs ''invalid'' =
              (if toBoolean (pe e ctx) then None
               else Some (i18n ''{0} is invalid'' (getProp (attrs st) ''title'')))
         \<and> (\<forall>k. k \<noteq> ''invalid'' \<longrightarrow> errs k = orEmpty (errors st) k)))
   \<and> (handleValidation pe i18n ctx x st0 = None
        \<longleftrightarrow> errors st0 = Some (invalidUpdated i18n (pe x ctx) st0))
   \<and> (\<forall>st'. handleValidation pe i18n ctx x st0 = Some st' \<longrightarrow>
         errors st' = Some (invalidUpdated i18n (pe x ctx) st0) \<and> errors st' \<noteq> errors st0
       \<and> attrs st' = attrs st0 \<and> WidgetState.more st' = WidgetState.more st0)"
proof (intro conjI allI impI)
  fix e assume a: "validIf schema = Some e \<and> e \<noteq> []"
  have "errors (snd (recordUpdate pe pae i18n get va schema ctx st))
          = Some (invalidUpdated i18n (pe e ctx) st)"
    using a by (simp add: recordUpdate_def Let_def hasExpression_def processSchema_validIf
        subscriber_errors)
  then show "\<exists>errs. errors (snd (recordUpdate pe pae i18n get va schema ctx st)) = Some errs
         \<and> errs ''invalid'' =
              (if toBoolean (pe e ctx) then None
               else Some (i18n ''{0} is invalid'' (getProp (attrs st) ''title'')))
         \<and> (\<forall>k. k \<noteq> ''invalid'' \<longrightarrow> errs k = orEmpty (errors st) k)"
    by (simp add: invalidUpdated_def)
next
  show "(handleValidation pe i18n ctx x st0 = None)
        = (errors st0 = Some (invalidUpdated i18n (pe x ctx) st0))"
    by (simp add: handleValidation_cases)
next
  fix st' assume "handleValidation pe i18n ctx x st0 = Some st'"
  then have w: "errors st0 \<noteq> Some (invalidUpdated i18n (pe x ctx) st0)"
    and s: "st' = st0\<lparr>errors := Some (invalidUpdated i18n (pe x ctx) st0)\<rparr>"
    by (auto simp: handleValidation_cases split: if_splits)
  from s show "errors st' = Some (invalidUpdated i18n (pe x ctx) st0)" by simp
  from s w show "errors st' \<noteq> errors st0" by simp
  from s show "attrs st' = attrs st0" by simp
  from s show "WidgetState.more st' = WidgetState.more st0" by simp
qed

theorem C5_validIf_witness:
  "errors (snd (recordUpdate tableEval tableEval titleMessage holds None
             (emptySchema\<lparr>validIf := Some ''v''\<rparr>) [(''v'', JBool False)]
             (emptyState\<lparr>attrs := [''title'' \<mapsto> JStr ''Name'']\<rparr>)))
     = Some [''invalid'' \<mapsto> ''Name is invalid'']
   \<and> handleValidation tableEval titleMessage [(''v'', JBool True)] ''v'' 
        (emptyState\<lparr>errors := Some Map.empty\<rparr>) = None"
proof -
  let ?st = "emptyState\<lparr>attrs := [''title'' \<mapsto> JStr ''Name'']\<rparr>"
  from C5_validIf [of "emptySchema\<lparr>validIf := Some ''v''\<rparr>" tableEval tableEval titleMessage
      holds None "[(''v'', JBool False)]" ?st "''v''" "emptyState\<lparr>errors := Some Map.empty\<rparr>"]
  obtain errs where
    e: "errors (snd (recordUpdate tableEval tableEval titleMessage holds None
             (emptySchema\<lparr>validIf := Some ''v''\<rparr>) [(''v'', JBool False)] ?st)) = Some errs"
    and i: "errs ''invalid'' = Some ''Name is invalid''"
    and k: "\<forall>k. k \<noteq> ''invalid'' \<longrightarrow> errs k = None"
    by (auto simp: emptySchema_def emptyState_def tableEval_def titleMessage_def getProp_def
        orEmpty_def)
  have "errs = [''invalid'' \<mapsto> ''Name is invalid'']"
    using i k by (auto simp: fun_eq_iff)
  moreover have "handleValidation tableEval titleMessage [(''v'', JBool True)] ''v'' 
        (emptyState\<lparr>errors := Some Map.empty\<rparr>) = None"
    by (simp add: handleValidation_cases invalidUpdated_def emptyState_def tableEval_def
        orEmpty_def)
  ultimately show ?thesis using e by simp
qed

section \<open>Properties of handleBind\<close>

lemma toBoolean_isField:
  "toBoolean (isField schema) =
     (truthyStr (jsonField schema) \<or> type schema = Some ''field''
        \<or> type schema = Some ''panel-related'')"
  by (cases "jsonField schema") (auto simp: isField_def js_or_def)

text \<open>
  C4 (amended). For a field-like schema (one that has a value atom) with a \<open>bind\<close>
  expression, each record update calls \<open>set\<close> on the value atom with the value of the
  expression, \<open>null\<close> standing in for \<open>null\<close> and \<open>undefined\<close>; the dirty flag of the call
  is false when the previous value is \<open>undefined\<close>, and otherwise it is true exactly when
  the previous value is not strictly equal to the new one. For a schema that is not
  field-like there is no value atom and nothing is set.
\<close>

theorem C4_bind:
  fixes schema :: "'a Schema_scheme" and st :: "'b WidgetState_scheme"
  shows
  "(\<forall>b. bind schema = Some b \<and> b \<noteq> [] \<and> toBoolean (isField schema) \<longrightarrow>
      (\<exists>call. fst (recordUpdate pe pae i18n get (valueAtomOf createValueAtom schema) schema ctx st)
                 = Some call
        \<and> set_value call =
             (if pae b ctx = JUndefined \<or> pae b ctx = JNull then JNull else pae b ctx)
        \<and> set_markDirty call =
             (if get (createValueAtom schema) = JUndefined then False
              else \<not> strictEquals (get (createValueAtom schema)) (set_value call))))
   \<and> (\<not> toBoolean (isField schema) \<longrightarrow>
        fst (recordUpdate pe pae i18n get (valueAtomOf createValueAtom schema) schema ctx st) = None)"
proof (intro conjI allI impI)
  fix b assume a: "bind schema = Some b \<and> b \<noteq> [] \<and> toBoolean (isField schema)"
  let ?call = "\<lparr>set_value = nullish (pae b ctx) JNull, set_fireOnChange = False,
                 set_markDirty = (if get (createValueAtom schema) = JUndefined then False
                    else \<not> strictEquals (get (createValueAtom schema)) (nullish (pae b ctx) JNull))\<rparr>"
  have "fst (recordUpdate pe pae i18n get (valueAtomOf createValueAtom schema) schema ctx st)
          = Some ?call"
    using a by (simp add: recordUpdate_def Let_def processSchema_bind subscriber_fst
        handleBind_def valueAtomOf_def)
  then show "\<exists>call. fst (recordUpdate pe pae i18n get (valueAtomOf createValueAtom schema) schema ctx st)
                 = Some call
        \<and> set_value call =
             (if pae b ctx = JUndefined \<or> pae b ctx = JNull then JNull else pae b ctx)
        \<and> set_markDirty call =
             (if get (createValueAtom schema) = JUndefined then False
              else \<not> strictEquals (get (createValueAtom schema)) (set_value call))"
    by (simp add: nullish_def)
next
  assume "\<not> toBoolean (isField schema)"
  then show "fst (recordUpdate pe pae i18n get (valueAtomOf createValueAtom schema) schema ctx st) = None"
    by (cases "bind schema")
       (simp_all add: recordUpdate_def Let_def processSchema_bind subscriber_fst
        handleBind_def valueAtomOf_def)
qed

theorem C4_bind_witness:
  "fst (recordUpdate tableEval tableEval titleMessage holds
          (valueAtomOf (atomOf (JNum 1)) (emptySchema\<lparr>type := Some ''field'', bind := Some ''x''\<rparr>))
          (emptySchema\<lparr>type := Some ''field'', bind := Some ''x''\<rparr>) [] emptyState)
     = Some \<lparr>set_value = JNull, set_fireOnChange = False, set_markDirty = True\<rparr>"
  using C4_bind [of "emptySchema\<lparr>type := Some ''field'', bind := Some ''x''\<rparr>" tableEval
      tableEval titleMessage holds "atomOf (JNum 1)" "[]" emptyState]
  by (simp add: recordUpdate_def Let_def processSchema_bind subscriber_fst
        handleBind_def valueAtomOf_def toBoolean_isField emptySchema_def tableEval_def holds_def
        atomOf_def nullish_def hasExpression_def)

text \<open>
  A panel with a \<open>bind\<close> expression: no value atom, no call, whatever the expression
  evaluates to.
\<close>

theorem C4_counterexample:
  "bind (emptySchema\<lparr>type := Some ''panel'', bind := Some ''x''\<rparr>) = Some ''x''
   \<and> fst (recordUpdate tableEval tableEval titleMessage holds
          (valueAtomOf (atomOf (JNum 1)) (emptySchema\<lparr>type := Some ''panel'', bind := Some ''x''\<rparr>))
          (emptySchema\<lparr>type := Some ''panel'', bind := Some ''x''\<rparr>) [(''x'', JNum 2)] emptyState)
     = None"
  by (simp add: recordUpdate_def Let_def processSchema_bind subscriber_fst
        handleBind_def valueAtomOf_def toBoolean_isField emptySchema_def hasExpression_def)

section \<open>Properties of valueCheck\<close>

text \<open>
  C3 (amended). \<open>valueCheck\<close> validates the current value against the schema overridden
  by the current attributes (\<open>schema ++ attrs prev\<close>), in the context of the record. The
  errors it arrives at are those of the validation, with the previous \<open>invalid\<close> entry,
  when it is a non-empty message, merged in as \<open>{ invalid, ...errors }\<close> does: it is kept
  when the validation has no \<open>invalid\<close> entry, and replaced by the validation's own
  \<open>invalid\<close> entry when it has one. The widget atom is written exactly when these errors
  are not equal to the previous ones (\<open>undefined\<close> counting as no errors), and then only the
  errors change.
\<close>

theorem C3_valueCheck:
  fixes prev :: "'a WidgetState_scheme"
  shows
  "\<exists>errs.
      (\<forall>k. k \<noteq> ''invalid'' \<longrightarrow>
           orEmpty errs k = orEmpty (validate value (schema ++ attrs prev) record) k)
    \<and> orEmpty errs ''invalid'' =
        (case orEmpty (validate value (schema ++ attrs prev) record) ''invalid'' of
           Some j \<Rightarrow> Some j
         | None \<Rightarrow> (case orEmpty (errors prev) ''invalid'' of
                      None \<Rightarrow> None
                    | Some i \<Rightarrow> if i \<noteq> [] then Some i else None))
    \<and> valueCheck validate value schema record prev =
        (if orEmpty (errors prev) = orEmpty errs then None
         else Some (prev\<lparr>errors := errs\<rparr>))"
proof -
  let ?e0 = "validate value (schema ++ attrs prev) record"
  let ?inv = "orEmpty (errors prev) ''invalid''"
  show ?thesis
  proof (cases "\<exists>i. ?inv = Some i \<and> i \<noteq> []")
    case True
    then obtain i where i: "?inv = Some i" "i \<noteq> []" by blast
    then have p: "(case errors prev of None \<Rightarrow> None | Some e \<Rightarrow> e ''invalid'') = Some i"
      by (simp add: orEmpty_def split: option.splits)
    let ?errs = "Some ([''invalid'' \<mapsto> i] ++ orEmpty ?e0)"
    have "valueCheck validate value schema record prev =
        (if orEmpty (errors prev) = orEmpty ?errs then None else Some (prev\<lparr>errors := ?errs\<rparr>))"
      using i(2) by (simp add: valueCheck_def Let_def p)
    moreover have "\<forall>k. k \<noteq> ''invalid'' \<longrightarrow> orEmpty ?errs k = orEmpty ?e0 k"
      by (simp add: orEmpty_def map_add_def split: option.splits)
    moreover have "orEmpty ?errs ''invalid'' =
        (case orEmpty ?e0 ''invalid'' of Some j \<Rightarrow> Some j
         | None \<Rightarrow> (case ?inv of None \<Rightarrow> None | Some i \<Rightarrow> if i \<noteq> [] then Some i else None))"
      using i by (simp add: map_add_def orEmpty_def split: option.splits)
    ultimately show ?thesis by blast
  next
    case False
    then have p: "(case (case errors prev of None \<Rightarrow> None | Some e \<Rightarrow> e ''invalid'') of
                     None \<Rightarrow> ?e0
                   | Some i \<Rightarrow> if i \<noteq> [] then Some ([''invalid'' \<mapsto> i] ++ orEmpty ?e0) else ?e0) = ?e0"
      by (auto simp: orEmpty_def split: option.splits)
    have "valueCheck validate value schema record prev =
        (if orEmpty (errors prev) = orEmpty ?e0 then None else Some (prev\<lparr>errors := ?e0\<rparr>))"
      by (simp add: valueCheck_def Let_def p)
    moreover have "orEmpty ?e0 ''invalid'' =
        (case orEmpty ?e0 ''invalid'' of Some j \<Rightarrow> Some j
         | None \<Rightarrow> (case ?inv of None \<Rightarrow> None | Some i \<Rightarrow> if i \<noteq> [] then Some i else None))"
      using False by (auto split: option.splits)
    ultimately show ?thesis by blast
  qed
qed


theorem C3_valueCheck_witness:
  "valueCheck requiredValidate JNull [''required'' \<mapsto> JBool False] ()
      \<lparr>attrs = [''required'' \<mapsto> JBool True], errors = Some [''invalid'' \<mapsto> ''Name is invalid'']\<rparr>
     = Some \<lparr>attrs = [''required'' \<mapsto> JBool True],
             errors = Some [''invalid'' \<mapsto> ''Name is invalid'',
                            ''required'' \<mapsto> ''Field is required'']\<rparr>
   \<and> valueCheck requiredValidate (JStr ''x'') [''required'' \<mapsto> JBool False] ()
      \<lparr>attrs = [''required'' \<mapsto> JBool True], errors = Some [''invalid'' \<mapsto> ''Name is invalid'']\<rparr>
     = None"
proof -
  have ne: "[''invalid'' \<mapsto> ''Name is invalid''] \<noteq>
            [''invalid'' \<mapsto> ''Name is invalid'', ''required'' \<mapsto> ''Field is required'']"
    by (auto dest: fun_cong [where x = "''required''"])
  show ?thesis
    using ne C3_valueCheck [of requiredValidate JNull "[''required'' \<mapsto> JBool False]"
        "\<lparr>attrs = [''required'' \<mapsto> JBool True],
          errors = Some [''invalid'' \<mapsto> ''Name is invalid'']\<rparr>" "()"]
    by (simp add: valueCheck_def Let_def requiredValidate_def getProp_def orEmpty_def)
qed

text \<open>
  The previous \<open>invalid\<close> message is not preserved when the validation reports an
  \<open>invalid\<close> entry itself: the spread puts the validation's entry over it, and the atom is
  written with the new message.
\<close>

theorem C3_counterexample:
  "errors \<lparr>attrs = Map.empty, errors = Some [''invalid'' \<mapsto> ''Name is invalid'']\<rparr>
     = Some [''invalid'' \<mapsto> ''Name is invalid'']
   \<and> valueCheck rejectingValidate (JStr ''x'') Map.empty ()
        \<lparr>attrs = Map.empty, errors = Some [''invalid'' \<mapsto> ''Name is invalid'']\<rparr>
     = Some \<lparr>attrs = Map.empty, errors = Some [''invalid'' \<mapsto> ''Value is not allowed'']\<rparr>
   \<and> [''invalid'' \<mapsto> ''Value is not allowed''] ''invalid'' \<noteq> Some ''Name is invalid''"
proof -
  have ne: "[''invalid'' \<mapsto> ''Name is invalid''] \<noteq> [''invalid'' \<mapsto> ''Value is not allowed'']"
    by (auto dest: fun_cong [where x = "''invalid''"])
  show ?thesis
    using ne by (simp add: valueCheck_def Let_def rejectingValidate_def orEmpty_def)
qed

section \<open>Properties of FormWidget\<close>

lemma toBoolean_js_or: "toBoolean (js_or a b) = (toBoolean a \<or> toBoolean b)"
  by (simp add: js_or_def)

lemma toBoolean_ofFlag: "toBoolean (ofFlag f) = (f = Some True)"
  by (cases f) auto

text \<open>
  C2 (amended). With a \<open>render\<close> prop, \<open>FormWidget\<close> renders that component, whatever the
  state of the widget. Without one it dispatches in this order: a hidden widget renders
  nothing; otherwise the viewer is rendered exactly when the schema has a viewer, a value
  atom exists, \<open>canView\<close> holds and the widget is readonly; otherwise the editor is
  rendered exactly when the schema has an editor, a value atom exists, \<open>canEdit\<close> holds
  and the widget is not readonly, or the editor has a viewer, a value atom exists,
  \<open>canView\<close> holds and the widget is readonly; otherwise the form item is rendered.
\<close>

theorem C2_FormWidget:
  fixes props :: "('a, 'r) FormWidgetProps" and st :: "'b WidgetState_scheme"
  shows
  "(let schema = props_schema props;
        atom = valueAtomOf createValueAtom schema;
        hid = toBoolean (getProp (attrs st) ''hidden'');
        ro = (toBoolean (getProp (attrs st) ''readonly'') \<or> props_readonly props = Some True);
        cE = toBoolean (nullish (getProp (attrs st) ''canEdit'') (JBool True));
        cV = toBoolean (nullish (getProp (attrs st) ''canView'') (JBool True));
        asViewer = (toBoolean (viewer schema) \<and> atom \<noteq> None \<and> cV \<and> ro);
        asEditor = ((editor schema \<noteq> None \<and> atom \<noteq> None \<and> cE \<and> \<not> ro) \<or>
                    ((\<exists>e. editor schema = Some e \<and> toBoolean (editor_viewer e)) \<and>
                       atom \<noteq> None \<and> cV \<and> ro));
        r = FormWidget createValueAtom props st
    in (\<forall>c. props_render props = Some c \<longrightarrow> r = Custom c)
     \<and> (props_render props = None \<longrightarrow>
          (hid \<longrightarrow> r = Null)
        \<and> ((r = FieldViewer atom) = (\<not> hid \<and> asViewer))
        \<and> ((r = FieldEditor atom) = (\<not> hid \<and> \<not> asViewer \<and> asEditor))
        \<and> ((r = FormItem atom) = (\<not> hid \<and> \<not> asViewer \<and> \<not> asEditor))))"
  by (cases "editor (props_schema props)")
     (auto simp: FormWidget_def Let_def toBoolean_js_or toBoolean_ofFlag)

theorem C2_FormWidget_witness:
  "FormWidget (atomOf (JNum 1))
      \<lparr>props_schema = emptySchema\<lparr>type := Some ''field'', viewer := JObj 1\<rparr>,
        props_readonly = Some True, props_render = (None :: string option)\<rparr> emptyState
     = FieldViewer (Some (JNum 1))
   \<and> FormWidget (atomOf (JNum 1))
      \<lparr>props_schema = emptySchema\<lparr>type := Some ''field'', editor := Some \<lparr>editor_viewer = JUndefined\<rparr>\<rparr>,
        props_readonly = None, props_render = (None :: string option)\<rparr> emptyState
     = FieldEditor (Some (JNum 1))"
  using C2_FormWidget [of "\<lparr>props_schema = emptySchema\<lparr>type := Some ''field'', viewer := JObj 1\<rparr>,
        props_readonly = Some True, props_render = (None :: string option)\<rparr>" "atomOf (JNum 1)"
        emptyState]
  by (simp add: FormWidget_def Let_def valueAtomOf_def toBoolean_isField emptySchema_def
      emptyState_def getProp_def nullish_def js_or_def atomOf_def)

text \<open>A hidden widget with a \<open>render\<close> prop renders that component, not nothing.\<close>

theorem C2_counterexample:
  "toBoolean (getProp (attrs (emptyState\<lparr>attrs := [''hidden'' \<mapsto> JBool True]\<rparr>)) ''hidden'')
   \<and> FormWidget (atomOf (JNum 1))
        \<lparr>props_schema = emptySchema, props_readonly = None, props_render = Some ''Comp''\<rparr>
        (emptyState\<lparr>attrs := [''hidden'' \<mapsto> JBool True]\<rparr>) = Custom ''Comp''
   \<and> Custom ''Comp'' \<noteq> (Null :: (string, jsval) Rendered)"
  by (simp add: FormWidget_def Let_def getProp_def emptyState_def)

text \<open>
  C8. \<open>FormWidget\<close> creates a value atom for a schema exactly when the schema is
  field-like: its \<open>jsonField\<close> is set (a non-empty string), or its type is \<open>field\<close> or
  \<open>panel-related\<close>. For every other schema the value atom is \<open>undefined\<close>.
\<close>

theorem C8_valueAtom:
  fixes schema :: "'a Schema_scheme"
  shows
  "(truthyStr (jsonField schema) \<or> type schema = Some ''field''
      \<or> type schema = Some ''panel-related''
      \<longrightarrow> valueAtomOf createValueAtom schema = Some (createValueAtom schema))
   \<and> (\<not> (truthyStr (jsonField schema) \<or> type schema = Some ''field''
      \<or> type schema = Some ''panel-related'')
      \<longrightarrow> valueAtomOf createValueAtom schema = None)"
  by (simp add: valueAtomOf_def toBoolean_isField)

theorem C8_valueAtom_witness:
  "valueAtomOf (atomOf (JNum 1)) (emptySchema\<lparr>type := Some ''panel-related''\<rparr>) = Some (JNum 1)
   \<and> valueAtomOf (atomOf (JNum 1)) (emptySchema\<lparr>jsonField := Some ''attrs''\<rparr>) = Some (JNum 1)
   \<and> valueAtomOf (atomOf (JNum 1)) (emptySchema\<lparr>type := Some ''panel''\<rparr>) = None"
  using C8_valueAtom [of "emptySchema\<lparr>type := Some ''panel-related''\<rparr>" "atomOf (JNum 1)"]
    C8_valueAtom [of "emptySchema\<lparr>jsonField := Some ''attrs''\<rparr>" "atomOf (JNum 1)"]
    C8_valueAtom [of "emptySchema\<lparr>type := Some ''panel''\<rparr>" "atomOf (JNum 1)"]
  by (simp add: emptySchema_def atomOf_def)

section \<open>Properties of processSchema\<close>

text \<open>
  C6. \<open>processSchema\<close> returns the schema itself when \<open>jsonField\<close>, \<open>contextField\<close> or
  \<open>contextFieldValue\<close> is missing or empty, or when the schema is hidden with neither
  \<open>showIf\<close> nor \<open>hideIf\<close>. Otherwise the result has no \<open>hideIf\<close>; its \<open>showIf\<close> is the
  context condition, followed by the original \<open>showIf\<close> in parentheses and by the negated
  original \<open>hideIf\<close>, each when there is one; its \<open>requiredIf\<close>, when \<open>required\<close> or
  \<open>requiredIf\<close> was set, is the context condition followed by the original \<open>requiredIf\<close>
  when there is one, and the original \<open>requiredIf\<close> otherwise; every other property is the
  schema's.
\<close>

theorem C6_processSchema:
  fixes schema :: "'a Schema_scheme"
  shows
  "((\<not> truthyStr (jsonField schema) \<or> \<not> truthyStr (contextField schema) \<or>
     \<not> truthyStr (contextFieldValue schema) \<or>
     (truthyFlag (hidden schema) \<and> \<not> truthyStr (showIf schema) \<and> \<not> truthyStr (hideIf schema)))
      \<longrightarrow> processSchema schema = schema)
   \<and> (truthyStr (jsonField schema) \<and> truthyStr (contextField schema) \<and>
      truthyStr (contextFieldValue schema) \<and>
      \<not> (truthyFlag (hidden schema) \<and> \<not> truthyStr (showIf schema) \<and> \<not> truthyStr (hideIf schema))
      \<longrightarrow> (\<exists>cf cfv cond.
            contextField schema = Some cf \<and> contextFieldValue schema = Some cfv
          \<and> cond = ''($record.'' @ cf @ ''.id === '' @ cfv @ '')''
          \<and> hideIf (processSchema schema) = None
          \<and> showIf (processSchema schema) =
              Some (cond
                @ (case showIf schema of None \<Rightarrow> [] | Some s \<Rightarrow>
                     if s = [] then [] else '' && ('' @ s @ '')'')
                @ (case hideIf schema of None \<Rightarrow> [] | Some h \<Rightarrow>
                     if h = [] then [] else '' && !('' @ h @ '')''))
          \<and> (truthyFlag (required schema) \<or> truthyStr (requiredIf schema) \<longrightarrow>
               requiredIf (processSchema schema) =
                 Some (cond
                   @ (case requiredIf schema of None \<Rightarrow> [] | Some r \<Rightarrow>
                        if r = [] then [] else '' && ('' @ r @ '')''))
          \<and> (\<not> truthyFlag (required schema) \<and> \<not> truthyStr (requiredIf schema) \<longrightarrow>
               requiredIf (processSchema schema) = requiredIf schema)
          \<and> (processSchema schema)\<lparr>showIf := showIf schema, hideIf := hideIf schema,
                                   requiredIf := requiredIf schema\<rparr> = schema)))"
  by (cases "showIf schema"; cases "hideIf schema"; cases "requiredIf schema";
      cases "contextField schema"; cases "contextFieldValue schema";
      simp add: processSchema_def contextCondition_def Let_def)

theorem C6_processSchema_witness:
  "showIf (processSchema (contextSchema\<lparr>required := Some True, showIf := Some ''a'',
       hideIf := Some ''b''\<rparr>)) = Some ''($record.partner.id === 1) && (a) && !(b)''
   \<and> hideIf (processSchema (contextSchema\<lparr>required := Some True, showIf := Some ''a'',
       hideIf := Some ''b''\<rparr>)) = None
   \<and> requiredIf (processSchema (contextSchema\<lparr>required := Some True, showIf := Some ''a'',
       hideIf := Some ''b''\<rparr>)) = Some ''($record.partner.id === 1)''
   \<and> processSchema (emptySchema\<lparr>hidden := Some True, showIf := Some ''a''\<rparr>)
        = emptySchema\<lparr>hidden := Some True, showIf := Some ''a''\<rparr>
   \<and> processSchema (contextSchema\<lparr>hidden := Some True\<rparr>) = contextSchema\<lparr>hidden := Some True\<rparr>"
  using C6_processSchema [of "contextSchema\<lparr>required := Some True, showIf := Some ''a'',
       hideIf := Some ''b''\<rparr>"]
    C6_processSchema [of "emptySchema\<lparr>hidden := Some True, showIf := Some ''a''\<rparr>"]
    C6_processSchema [of "contextSchema\<lparr>hidden := Some True\<rparr>"]
  by (simp add: emptySchema_def contextSchema_def)

section \<open>Properties of the Phone widget\<close>

text \<open>
  C9. When the phone number is the dial code alone, \<open>+\<close> followed by the dial code of the
  selected country, the change handler and the blur handler both pass the empty string
  on; for every other phone number they pass the number itself.
\<close>

theorem C9_dial_code_only:
  "phoneOnChange phone dialCode = (if phone = ''+'' @ dialCode then [] else phone)
   \<and> phoneOnBlur phone dialCode = (if phone = ''+'' @ dialCode then [] else phone)"
  by (simp add: phoneOnChange_def phoneOnBlur_def)

theorem C9_dial_code_only_witness:
  "phoneOnChange ''+33'' ''33'' = [] \<and> phoneOnBlur ''+33'' ''33'' = []
   \<and> phoneOnChange ''+33612345678'' ''33'' = ''+33612345678''
   \<and> phoneOnBlur ''+33612345678'' ''33'' = ''+33612345678''"
  using C9_dial_code_only [of "''+33''" "''33''"] C9_dial_code_only [of "''+33612345678''" "''33''"]
  by simp

text \<open>
  C10. When \<open>onlyCountries\<close> is a non-empty list, the default country is a member of it
  (a string of the list): the initial or locale-derived country when that is in the list,
  the first element of the list otherwise. The iso2 code given to the flag is a member of
  the list too.
\<close>

theorem C10_default_country_in_list:
  "onlyCountries oc \<noteq> [] \<longrightarrow>
     defaultCountry findLocale languages locale initialCountry (onlyCountries oc)
       \<in> JStr ` set (onlyCountries oc)
   \<and> countryIso2 (onlyCountries oc)
        (defaultCountry findLocale languages locale initialCountry (onlyCountries oc)) iso2
       \<in> JStr ` set (onlyCountries oc)
   \<and> defaultCountry findLocale languages locale initialCountry (onlyCountries oc) =
       (let derived = (if truthyStr initialCountry then JStr (interp initialCountry)
                       else localeCountry findLocale languages locale)
        in if derived \<in> JStr ` set (onlyCountries oc) then derived
           else JStr (hd (onlyCountries oc)))"
  by (cases "onlyCountries oc")
     (auto simp: defaultCountry_def countryIso2_def arrayIncludes_def Let_def)

theorem C10_default_country_in_list_witness:
  "onlyCountries (Some ''FR, be'') = [''fr'', ''be'']
   \<and> defaultCountry noLocale [] ''en-US'' None (onlyCountries (Some ''FR, be'')) = JStr ''fr''
   \<and> defaultCountry noLocale [] ''constructor'' None (onlyCountries (Some ''FR, be'')) = JStr ''fr''
   \<and> countryIso2 (onlyCountries (Some ''FR, be'')) (JStr ''fr'') ''us'' = JStr ''fr''
   \<and> countryIso2 (onlyCountries (Some ''FR, be'')) (JStr ''fr'') ''be'' = JStr ''be''"
  using C10_default_country_in_list [of "Some ''FR, be''" noLocale "[]" "''en-US''" None "''us''"]
  by (simp add: onlyCountries_def splitNonWord_def isWordChar_def toLowerCase_def lowerChar_def
      defaultCountry_def countryIso2_def localeCountry_def splitDash_def noLocale_def
      arrayIncludes_def fallbackCountry_def FALLBACK_COUNTRIES_def nullish_def)

end
